theory Spec2Isabelle
  imports Main
begin

section \<open>JavaScript values\<close>

text \<open>
  The handlers of \<^verbatim>\<open>src/index.js\<close> work on whatever \<^verbatim>\<open>JSON.parse\<close> returns, so the
  model keeps JavaScript's values: the JSON values and \<^verbatim>\<open>undefined\<close> (what the read of a
  missing property gives). Numbers are the integers (timestamps are integer
  milliseconds; fractions and the rounding of doubles are outside the model); an object
  is the list of its members, in order, and where a list repeats a name the first entry
  is the member.
\<close>

datatype js =
    JUndefined
  | JNull
  | JBool bool
  | JNum int
  | JStr string
  | JArr "js list"
  | JObj "(string \<times> js) list"

datatype error = SyntaxError | TypeError

text \<open>\<^verbatim>\<open>if (v)\<close>, \<^verbatim>\<open>!v\<close>, \<^verbatim>\<open>a && b\<close>: JavaScript's ToBoolean.\<close>

fun truthy :: "js \<Rightarrow> bool" where
  "truthy JUndefined = False"
| "truthy JNull = False"
| "truthy (JBool b) = b"
| "truthy (JNum n) = (n \<noteq> 0)"
| "truthy (JStr s) = (s \<noteq> [])"
| "truthy (JArr xs) = True"
| "truthy (JObj kvs) = True"

text \<open>\<^verbatim>\<open>v != null\<close> is \<open>\<not> nullish v\<close>: the loose comparison holds \<^verbatim>\<open>undefined\<close> equal to \<^verbatim>\<open>null\<close>.\<close>

fun nullish :: "js \<Rightarrow> bool" where
  "nullish JUndefined = True"
| "nullish JNull = True"
| "nullish v = False"

text \<open>
  \<^verbatim>\<open>v.k\<close> for a value \<open>v\<close> that is neither \<^verbatim>\<open>null\<close> nor \<^verbatim>\<open>undefined\<close> (on those the read
  throws a TypeError, which each handler below checks before it reads), and for the
  member names the handlers read: an object gives its member or \<^verbatim>\<open>undefined\<close>, every
  other value gives \<^verbatim>\<open>undefined\<close>.
\<close>

fun read_prop :: "js \<Rightarrow> string \<Rightarrow> js" where
  "read_prop (JObj kvs) k = (case map_of kvs k of None \<Rightarrow> JUndefined | Some v \<Rightarrow> v)"
| "read_prop v k = JUndefined"

section \<open>What the runtime provides\<close>

text \<open>
  Two operations of the handlers belong to Node and to the language, not to the
  repository; they are parameters of the model.
  \<^item> \<open>base64_roundtrip v\<close> is \<^verbatim>\<open>Buffer.from(v, "base64").toString("base64")\<close>, with \<open>Inl\<close>
    when \<^verbatim>\<open>Buffer.from\<close> throws.
  \<^item> \<open>minus_coerce a b\<close> is \<^verbatim>\<open>a - b\<close> when an operand is not a number (the ToNumber
    coercion); on two numbers the subtraction is done here.
\<close>

record runtime =
  base64_roundtrip :: "js \<Rightarrow> error + string"
  minus_coerce :: "js \<Rightarrow> js \<Rightarrow> js"

definition js_minus :: "runtime \<Rightarrow> js \<Rightarrow> js \<Rightarrow> js" where
  "js_minus rt a b =
     (case a of
        JNum x \<Rightarrow> (case b of JNum y \<Rightarrow> JNum (x - y) | _ \<Rightarrow> minus_coerce rt a b)
      | _ \<Rightarrow> minus_coerce rt a b)"

text \<open>\<^verbatim>\<open>openAiWs.readyState\<close>.\<close>

datatype ready_state = CONNECTING | OPEN | CLOSING | CLOSED

section \<open>The session\<close>

text \<open>The connection-specific state of one call (the \<^verbatim>\<open>let\<close> variables of the connection handler).\<close>

record session =
  streamSid :: js
  latestMediaTimestamp :: js
  lastAssistantItem :: js
  markQueue :: "string list"
  responseStartTimestampTwilio :: js

definition init_session :: session where
  "init_session =
     \<lparr>streamSid = JNull, latestMediaTimestamp = JNum 0, lastAssistantItem = JNull,
      markQueue = [], responseStartTimestampTwilio = JNull\<rparr>"

text \<open>
  An output is one call of \<^verbatim>\<open>send\<close>: \<open>ToTwilio o\<close> is \<^verbatim>\<open>ws.send(JSON.stringify(o))\<close>,
  \<open>ToOpenAi o\<close> is \<^verbatim>\<open>openAiWs.send(JSON.stringify(o))\<close>. A handler returns the new state and
  the outputs in the order of the calls. What the socket library does with a call is not
  part of the model; \<^verbatim>\<open>send\<close> throws only on a socket that is still connecting, and the
  handlers call it on the accepted Twilio socket, on the OpenAI socket inside its own
  message handler, or after the test \<^verbatim>\<open>readyState === WebSocket.OPEN\<close>.
\<close>

datatype out = ToTwilio js | ToOpenAi js

section \<open>Handlers of the OpenAI socket\<close>

definition handleSpeechStartedEvent :: "runtime \<Rightarrow> session \<Rightarrow> session \<times> out list" where
  "handleSpeechStartedEvent rt s =
     (if length (markQueue s) > 0 \<and> \<not> nullish (responseStartTimestampTwilio s) then
        let elapsedTime = js_minus rt (latestMediaTimestamp s) (responseStartTimestampTwilio s);
            truncation =
              (if truthy (lastAssistantItem s) then
                 [ToOpenAi (JObj [(''type'', JStr ''conversation.item.truncate''),
                                  (''item_id'', lastAssistantItem s),
                                  (''content_index'', JNum 0),
                                  (''audio_end_ms'', elapsedTime)])]
               else [])
        in (s\<lparr>markQueue := [], lastAssistantItem := JNull, responseStartTimestampTwilio := JNull\<rparr>,
            truncation @ [ToTwilio (JObj [(''event'', JStr ''clear''), (''streamSid'', streamSid s)])])
      else (s, []))"

definition sendMark :: "js \<Rightarrow> session \<Rightarrow> session \<times> out list" where
  "sendMark sid s =
     (if truthy sid then
        (s\<lparr>markQueue := markQueue s @ [''responsePart'']\<rparr>,
         [ToTwilio (JObj [(''event'', JStr ''mark''), (''streamSid'', sid),
                          (''mark'', JObj [(''name'', JStr ''responsePart'')])])])
      else (s, []))"

text \<open>
  The branch \<^verbatim>\<open>response.type === "response.audio.delta" && response.delta\<close>. The only
  statement of it that can throw is \<^verbatim>\<open>Buffer.from\<close>, before the first \<^verbatim>\<open>send\<close> and the first
  assignment.
\<close>

definition audio_delta_branch :: "runtime \<Rightarrow> session \<Rightarrow> js \<Rightarrow> error + session \<times> out list" where
  "audio_delta_branch rt s response =
     (case base64_roundtrip rt (read_prop response ''delta'') of
        Inl e \<Rightarrow> Inl e
      | Inr payload \<Rightarrow>
          let audioDelta = JObj [(''event'', JStr ''media''), (''streamSid'', streamSid s),
                                 (''media'', JObj [(''payload'', JStr payload)])];
              s1 = (if \<not> truthy (responseStartTimestampTwilio s)
                    then s\<lparr>responseStartTimestampTwilio := latestMediaTimestamp s\<rparr> else s);
              s2 = (if truthy (read_prop response ''item_id'')
                    then s1\<lparr>lastAssistantItem := read_prop response ''item_id''\<rparr> else s1);
              marked = sendMark (streamSid s2) s2
          in Inr (fst marked, ToTwilio audioDelta # snd marked))"

text \<open>The body of the \<^verbatim>\<open>try\<close> of \<^verbatim>\<open>openAiWs.on("message")\<close>, after \<^verbatim>\<open>JSON.parse\<close>.\<close>

definition openai_try :: "runtime \<Rightarrow> session \<Rightarrow> js \<Rightarrow> error + session \<times> out list" where
  "openai_try rt s response =
     (if nullish response then Inl TypeError
      else
        (case (if read_prop response ''type'' = JStr ''response.audio.delta'' \<and> truthy (read_prop response ''delta'')
               then audio_delta_branch rt s response
               else Inr (s, [])) of
           Inl e \<Rightarrow> Inl e
         | Inr r \<Rightarrow>
             if read_prop response ''type'' = JStr ''input_audio_buffer.speech_started''
             then (let h = handleSpeechStartedEvent rt (fst r) in Inr (fst h, snd r @ snd h))
             else Inr r))"

text \<open>
  \<^verbatim>\<open>openAiWs.on("message")\<close>. The argument is the result of \<^verbatim>\<open>JSON.parse(data)\<close>, \<open>Inl\<close> when it
  throws. The \<^verbatim>\<open>catch\<close> only logs; every throw comes before the first assignment and the
  first \<^verbatim>\<open>send\<close>, so the state is then the one before the message.
\<close>

definition on_openai_message :: "runtime \<Rightarrow> session \<Rightarrow> error + js \<Rightarrow> session \<times> out list" where
  "on_openai_message rt s parsed =
     (case parsed of
        Inl e \<Rightarrow> (s, [])
      | Inr response \<Rightarrow>
          (case openai_try rt s response of Inl e \<Rightarrow> (s, []) | Inr r \<Rightarrow> r))"

section \<open>Handler of the Twilio socket\<close>

text \<open>The body of the \<^verbatim>\<open>try\<close> of \<^verbatim>\<open>ws.on("message")\<close>, after \<^verbatim>\<open>JSON.parse\<close>: the \<^verbatim>\<open>switch\<close>.\<close>

definition twilio_try :: "ready_state \<Rightarrow> session \<Rightarrow> js \<Rightarrow> error + session \<times> out list" where
  "twilio_try readyState s data =
     (if nullish data then Inl TypeError
      else if read_prop data ''event'' = JStr ''media'' then
        (if nullish (read_prop data ''media'') then Inl TypeError
         else
           let s1 = s\<lparr>latestMediaTimestamp := read_prop (read_prop data ''media'') ''timestamp''\<rparr>
           in if readyState = OPEN
              then Inr (s1, [ToOpenAi (JObj [(''type'', JStr ''input_audio_buffer.append''),
                                             (''audio'', read_prop (read_prop data ''media'') ''payload'')])])
              else Inr (s1, []))
      else if read_prop data ''event'' = JStr ''start'' then
        (if nullish (read_prop data ''start'') then Inl TypeError
         else Inr (s\<lparr>streamSid := read_prop (read_prop data ''start'') ''streamSid'',
                     responseStartTimestampTwilio := JNull,
                     latestMediaTimestamp := JNum 0\<rparr>, []))
      else if read_prop data ''event'' = JStr ''mark'' then
        Inr (if length (markQueue s) > 0 then s\<lparr>markQueue := tl (markQueue s)\<rparr> else s, [])
      else Inr (s, []))"

text \<open>
  \<^verbatim>\<open>ws.on("message")\<close>, with the state of the OpenAI socket when the message arrives and
  the result of \<^verbatim>\<open>JSON.parse(message)\<close>.
\<close>

definition on_twilio_message :: "ready_state \<Rightarrow> session \<Rightarrow> error + js \<Rightarrow> session \<times> out list" where
  "on_twilio_message readyState s parsed =
     (case parsed of
        Inl e \<Rightarrow> (s, [])
      | Inr data \<Rightarrow>
          (case twilio_try readyState s data of Inl e \<Rightarrow> (s, []) | Inr r \<Rightarrow> r))"

section \<open>Runs of a session\<close>

datatype input =
    TwilioMessage ready_state "error + js"
  | OpenAiMessage "error + js"

fun step :: "runtime \<Rightarrow> session \<Rightarrow> input \<Rightarrow> session \<times> out list" where
  "step rt s (TwilioMessage readyState parsed) = on_twilio_message readyState s parsed"
| "step rt s (OpenAiMessage parsed) = on_openai_message rt s parsed"

fun run :: "runtime \<Rightarrow> session \<Rightarrow> input list \<Rightarrow> session \<times> out list" where
  "run rt s [] = (s, [])"
| "run rt s (i # is) =
     (let r1 = step rt s i; r2 = run rt (fst r1) is in (fst r2, snd r1 @ snd r2))"

text \<open>The outputs to Twilio whose \<^verbatim>\<open>event\<close> is \<open>name\<close>, and those to OpenAI whose \<^verbatim>\<open>type\<close> is \<open>name\<close>.\<close>

fun is_twilio_event :: "string \<Rightarrow> out \<Rightarrow> bool" where
  "is_twilio_event name (ToTwilio ev) = (read_prop ev ''event'' = JStr name)"
| "is_twilio_event name (ToOpenAi ev) = False"

fun is_openai_event :: "string \<Rightarrow> out \<Rightarrow> bool" where
  "is_openai_event name (ToOpenAi ev) = (read_prop ev ''type'' = JStr name)"
| "is_openai_event name (ToTwilio ev) = False"

definition twilio_events :: "string \<Rightarrow> out list \<Rightarrow> out list" where
  "twilio_events name outs = filter (is_twilio_event name) outs"

definition openai_events :: "string \<Rightarrow> out list \<Rightarrow> out list" where
  "openai_events name outs = filter (is_openai_event name) outs"

text \<open>
  A runtime to evaluate examples with: a canonical base64 string (such as \<^verbatim>\<open>"AAAA"\<close>)
  re-encodes to itself, \<^verbatim>\<open>Buffer.from\<close> rejects a number or a boolean. The examples subtract
  numbers only, so \<open>minus_coerce\<close> is never reached in them.
\<close>

definition example_runtime :: runtime where
  "example_runtime =
     \<lparr>base64_roundtrip = (\<lambda>v. case v of JStr p \<Rightarrow> Inr p | _ \<Rightarrow> Inl TypeError),
      minus_coerce = (\<lambda>a b. JUndefined)\<rparr>"

section \<open>Messages in the wire formats\<close>

definition speech_started_msg :: js where
  "speech_started_msg = JObj [(''type'', JStr ''input_audio_buffer.speech_started'')]"

definition audio_delta_msg :: "js \<Rightarrow> js" where
  "audio_delta_msg d = JObj [(''type'', JStr ''response.audio.delta''), (''delta'', d)]"

definition start_msg :: "js \<Rightarrow> js" where
  "start_msg sid = JObj [(''event'', JStr ''start''), (''start'', JObj [(''streamSid'', sid)])]"

definition media_msg :: "js \<Rightarrow> js \<Rightarrow> js" where
  "media_msg ts payload =
     JObj [(''event'', JStr ''media''), (''media'', JObj [(''timestamp'', ts), (''payload'', payload)])]"

definition mark_msg :: js where
  "mark_msg = JObj [(''event'', JStr ''mark''), (''mark'', JObj [(''name'', JStr ''responsePart'')])]"

section \<open>Before the stream starts\<close>

text \<open>
  No stream identifier is known and no mark is waiting: the state of a session until the
  first \<^verbatim>\<open>start\<close> message of Twilio.
\<close>

definition before_start :: "session \<Rightarrow> bool" where
  "before_start s = (\<not> truthy (streamSid s) \<and> markQueue s = [])"

fun is_start_message :: "input \<Rightarrow> bool" where
  "is_start_message (TwilioMessage readyState (Inr data)) = (read_prop data ''event'' = JStr ''start'')"
| "is_start_message i = False"

section \<open>Case analysis of the handlers\<close>

lemma message_with_member_not_nullish:
  "read_prop v k = JStr name \<Longrightarrow> \<not> nullish v"
  by (cases v) simp_all

lemma openai_try_cases:
  "openai_try rt s response =
     (if nullish response then Inl TypeError
      else if read_prop response ''type'' = JStr ''response.audio.delta''
              \<and> truthy (read_prop response ''delta'')
      then audio_delta_branch rt s response
      else if read_prop response ''type'' = JStr ''input_audio_buffer.speech_started''
      then Inr (handleSpeechStartedEvent rt s)
      else Inr (s, []))"
  by (simp add: openai_try_def split: sum.splits)

lemma openai_try_outcomes:
  obtains (throws) e where "openai_try rt s response = Inl e"
  | (delta) r where "openai_try rt s response = Inr r" "audio_delta_branch rt s response = Inr r"
  | (speech) "openai_try rt s response = Inr (handleSpeechStartedEvent rt s)"
  | (other) "openai_try rt s response = Inr (s, [])"
proof (cases "nullish response")
  case True
  then show ?thesis using throws [of TypeError] by (simp add: openai_try_cases)
next
  case nn: False
  show ?thesis
  proof (cases "read_prop response ''type'' = JStr ''response.audio.delta''
                \<and> truthy (read_prop response ''delta'')")
    case True
    with nn have eq: "openai_try rt s response = audio_delta_branch rt s response"
      by (simp add: openai_try_cases)
    show ?thesis
    proof (cases "audio_delta_branch rt s response")
      case (Inl e)
      with eq throws [of e] show ?thesis by simp
    next
      case (Inr r)
      with eq delta [of r] show ?thesis by simp
    qed
  next
    case nd: False
    show ?thesis
    proof (cases "read_prop response ''type'' = JStr ''input_audio_buffer.speech_started''")
      case True
      with nn nd have "openai_try rt s response = Inr (handleSpeechStartedEvent rt s)"
        by (auto simp add: openai_try_cases)
      then show ?thesis by (rule speech)
    next
      case False
      with nn nd have "openai_try rt s response = Inr (s, [])"
        by (auto simp add: openai_try_cases)
      then show ?thesis by (rule other)
    qed
  qed
qed

section \<open>Interruption\<close>

text \<open>
  C1. In a session with \<open>latestMediaTimestamp = 5000\<close>, \<open>responseStartTimestampTwilio = 3000\<close>,
  \<open>lastAssistantItem = "X"\<close> and a non-empty \<open>markQueue\<close>, a \<^verbatim>\<open>speech_started\<close> message of the
  OpenAI socket sends exactly one \<^verbatim>\<open>conversation.item.truncate\<close> to OpenAI
  (\<open>item_id "X"\<close>, \<open>content_index 0\<close>, \<open>audio_end_ms 2000\<close>) and exactly one \<^verbatim>\<open>clear\<close> to Twilio,
  and afterwards \<open>markQueue\<close> is empty and \<open>lastAssistantItem\<close> and
  \<open>responseStartTimestampTwilio\<close> are \<^verbatim>\<open>null\<close>.
\<close>

theorem speech_started_truncates:
  assumes "read_prop response ''type'' = JStr ''input_audio_buffer.speech_started''"
    and "latestMediaTimestamp s = JNum 5000"
    and "responseStartTimestampTwilio s = JNum 3000"
    and "lastAssistantItem s = JStr ''X''"
    and "markQueue s \<noteq> []"
  shows "on_openai_message rt s (Inr response) =
           (s\<lparr>markQueue := [], lastAssistantItem := JNull, responseStartTimestampTwilio := JNull\<rparr>,
            [ToOpenAi (JObj [(''type'', JStr ''conversation.item.truncate''),
                             (''item_id'', JStr ''X''),
                             (''content_index'', JNum 0),
                             (''audio_end_ms'', JNum 2000)]),
             ToTwilio (JObj [(''event'', JStr ''clear''), (''streamSid'', streamSid s)])])
         \<and> length (openai_events ''conversation.item.truncate''
                     (snd (on_openai_message rt s (Inr response)))) = 1
         \<and> length (twilio_events ''clear'' (snd (on_openai_message rt s (Inr response)))) = 1"
proof -
  from assms(1) have nn: "\<not> nullish response"
    by (rule message_with_member_not_nullish)
  have h: "handleSpeechStartedEvent rt s =
           (s\<lparr>markQueue := [], lastAssistantItem := JNull, responseStartTimestampTwilio := JNull\<rparr>,
            [ToOpenAi (JObj [(''type'', JStr ''conversation.item.truncate''),
                             (''item_id'', JStr ''X''),
                             (''content_index'', JNum 0),
                             (''audio_end_ms'', JNum 2000)]),
             ToTwilio (JObj [(''event'', JStr ''clear''), (''streamSid'', streamSid s)])])"
    using assms(2-5) by (simp add: handleSpeechStartedEvent_def js_minus_def)
  have "on_openai_message rt s (Inr response) = handleSpeechStartedEvent rt s"
    using nn assms(1) by (simp add: on_openai_message_def openai_try_cases)
  with h show ?thesis
    by (simp add: openai_events_def twilio_events_def)
qed

theorem speech_started_truncates_witness:
  "read_prop speech_started_msg ''type'' = JStr ''input_audio_buffer.speech_started''
   \<and> latestMediaTimestamp
        \<lparr>streamSid = JStr ''S1'', latestMediaTimestamp = JNum 5000, lastAssistantItem = JStr ''X'',
         markQueue = [''responsePart''], responseStartTimestampTwilio = JNum 3000\<rparr> = JNum 5000
   \<and> responseStartTimestampTwilio
        \<lparr>streamSid = JStr ''S1'', latestMediaTimestamp = JNum 5000, lastAssistantItem = JStr ''X'',
         markQueue = [''responsePart''], responseStartTimestampTwilio = JNum 3000\<rparr> = JNum 3000
   \<and> lastAssistantItem
        \<lparr>streamSid = JStr ''S1'', latestMediaTimestamp = JNum 5000, lastAssistantItem = JStr ''X'',
         markQueue = [''responsePart''], responseStartTimestampTwilio = JNum 3000\<rparr> = JStr ''X''
   \<and> markQueue
        \<lparr>streamSid = JStr ''S1'', latestMediaTimestamp = JNum 5000, lastAssistantItem = JStr ''X'',
         markQueue = [''responsePart''], responseStartTimestampTwilio = JNum 3000\<rparr> \<noteq> []
   \<and> on_openai_message example_runtime
        \<lparr>streamSid = JStr ''S1'', latestMediaTimestamp = JNum 5000, lastAssistantItem = JStr ''X'',
         markQueue = [''responsePart''], responseStartTimestampTwilio = JNum 3000\<rparr>
        (Inr speech_started_msg) =
       (\<lparr>streamSid = JStr ''S1'', latestMediaTimestamp = JNum 5000, lastAssistantItem = JNull,
         markQueue = [], responseStartTimestampTwilio = JNull\<rparr>,
        [ToOpenAi (JObj [(''type'', JStr ''conversation.item.truncate''),
                         (''item_id'', JStr ''X''),
                         (''content_index'', JNum 0),
                         (''audio_end_ms'', JNum 2000)]),
         ToTwilio (JObj [(''event'', JStr ''clear''), (''streamSid'', JStr ''S1'')])])"
  using speech_started_truncates
    [where response = speech_started_msg and rt = example_runtime
       and s = "\<lparr>streamSid = JStr ''S1'', latestMediaTimestamp = JNum 5000,
                 lastAssistantItem = JStr ''X'', markQueue = [''responsePart''],
                 responseStartTimestampTwilio = JNum 3000\<rparr>"]
  by (simp add: speech_started_msg_def)

text \<open>
  C6. When \<open>markQueue\<close> is empty or \<open>responseStartTimestampTwilio\<close> is unset (\<^verbatim>\<open>null\<close>, or
  \<^verbatim>\<open>undefined\<close>, which \<^verbatim>\<open>!= null\<close> treats alike), a \<^verbatim>\<open>speech_started\<close> message sends nothing
  on either socket and leaves the whole session as it was.
\<close>

theorem speech_started_noop:
  assumes "read_prop response ''type'' = JStr ''input_audio_buffer.speech_started''"
    and "markQueue s = [] \<or> nullish (responseStartTimestampTwilio s)"
  shows "on_openai_message rt s (Inr response) = (s, [])"
proof -
  from assms(1) have nn: "\<not> nullish response"
    by (cases response) simp_all
  from assms(2) have "handleSpeechStartedEvent rt s = (s, [])"
    by (auto simp add: handleSpeechStartedEvent_def)
  with nn assms(1) show ?thesis
    by (simp add: on_openai_message_def openai_try_def)
qed

theorem speech_started_noop_witness:
  "read_prop speech_started_msg ''type'' = JStr ''input_audio_buffer.speech_started''
   \<and> (markQueue init_session = [] \<or> nullish (responseStartTimestampTwilio init_session))
   \<and> on_openai_message example_runtime init_session (Inr speech_started_msg) = (init_session, [])
   \<and> nullish (responseStartTimestampTwilio
        \<lparr>streamSid = JStr ''S1'', latestMediaTimestamp = JNum 40, lastAssistantItem = JStr ''X'',
         markQueue = [''responsePart''], responseStartTimestampTwilio = JNull\<rparr>)
   \<and> on_openai_message example_runtime
        \<lparr>streamSid = JStr ''S1'', latestMediaTimestamp = JNum 40, lastAssistantItem = JStr ''X'',
         markQueue = [''responsePart''], responseStartTimestampTwilio = JNull\<rparr>
        (Inr speech_started_msg) =
       (\<lparr>streamSid = JStr ''S1'', latestMediaTimestamp = JNum 40, lastAssistantItem = JStr ''X'',
         markQueue = [''responsePart''], responseStartTimestampTwilio = JNull\<rparr>, [])"
  using speech_started_noop
    [where response = speech_started_msg and rt = example_runtime and s = init_session]
    speech_started_noop
    [where response = speech_started_msg and rt = example_runtime
       and s = "\<lparr>streamSid = JStr ''S1'', latestMediaTimestamp = JNum 40,
                 lastAssistantItem = JStr ''X'', markQueue = [''responsePart''],
                 responseStartTimestampTwilio = JNull\<rparr>"]
  by (simp add: speech_started_msg_def init_session_def)

section \<open>Audio from the assistant\<close>

text \<open>
  C9. A \<^verbatim>\<open>response.audio.delta\<close> message whose \<^verbatim>\<open>delta\<close> is absent or the empty string sends
  nothing and leaves the whole session as it was.
\<close>

theorem empty_delta_ignored:
  assumes "read_prop response ''type'' = JStr ''response.audio.delta''"
    and "read_prop response ''delta'' = JUndefined \<or> read_prop response ''delta'' = JStr []"
  shows "on_openai_message rt s (Inr response) = (s, [])"
proof -
  from assms(1) have nn: "\<not> nullish response"
    by (cases response) simp_all
  from assms(2) have "\<not> truthy (read_prop response ''delta'')"
    by auto
  with nn assms(1) show ?thesis
    by (simp add: on_openai_message_def openai_try_def)
qed

theorem empty_delta_ignored_witness:
  "read_prop (JObj [(''type'', JStr ''response.audio.delta'')]) ''type'' = JStr ''response.audio.delta''
   \<and> read_prop (JObj [(''type'', JStr ''response.audio.delta'')]) ''delta'' = JUndefined
   \<and> on_openai_message example_runtime init_session
        (Inr (JObj [(''type'', JStr ''response.audio.delta'')])) = (init_session, [])
   \<and> read_prop (audio_delta_msg (JStr [])) ''delta'' = JStr []
   \<and> on_openai_message example_runtime init_session (Inr (audio_delta_msg (JStr []))) =
       (init_session, [])"
  using empty_delta_ignored
    [where response = "JObj [(''type'', JStr ''response.audio.delta'')]"
       and rt = example_runtime and s = init_session]
    empty_delta_ignored
    [where response = "audio_delta_msg (JStr [])" and rt = example_runtime and s = init_session]
  by (simp add: audio_delta_msg_def)

section \<open>Audio from the caller\<close>

text \<open>
  C5. A Twilio \<^verbatim>\<open>media\<close> message (one that carries its \<^verbatim>\<open>media\<close> member) sets
  \<open>latestMediaTimestamp\<close> to \<^verbatim>\<open>media.timestamp\<close> whatever the state of the OpenAI socket, and
  changes nothing else of the session; it sends exactly one \<^verbatim>\<open>input_audio_buffer.append\<close>
  with the same payload when the OpenAI socket is open, and nothing when it is not.
\<close>

theorem media_updates_timestamp_and_forwards:
  assumes "read_prop data ''event'' = JStr ''media''"
    and "\<not> nullish (read_prop data ''media'')"
  shows "on_twilio_message readyState s (Inr data) =
           (s\<lparr>latestMediaTimestamp := read_prop (read_prop data ''media'') ''timestamp''\<rparr>,
            if readyState = OPEN
            then [ToOpenAi (JObj [(''type'', JStr ''input_audio_buffer.append''),
                                  (''audio'', read_prop (read_prop data ''media'') ''payload'')])]
            else [])"
proof -
  from assms(1) have nn: "\<not> nullish data"
    by (cases data) simp_all
  with assms show ?thesis
    by (simp add: on_twilio_message_def twilio_try_def Let_def)
qed

theorem media_updates_timestamp_and_forwards_witness:
  "read_prop (media_msg (JNum 100) (JStr ''AAAA'')) ''event'' = JStr ''media''
   \<and> \<not> nullish (read_prop (media_msg (JNum 100) (JStr ''AAAA'')) ''media'')
   \<and> on_twilio_message OPEN init_session (Inr (media_msg (JNum 100) (JStr ''AAAA''))) =
       (init_session\<lparr>latestMediaTimestamp := JNum 100\<rparr>,
        [ToOpenAi (JObj [(''type'', JStr ''input_audio_buffer.append''), (''audio'', JStr ''AAAA'')])])
   \<and> on_twilio_message CLOSED init_session (Inr (media_msg (JNum 100) (JStr ''AAAA''))) =
       (init_session\<lparr>latestMediaTimestamp := JNum 100\<rparr>, [])"
  using media_updates_timestamp_and_forwards
    [where data = "media_msg (JNum 100) (JStr ''AAAA'')" and readyState = OPEN and s = init_session]
    media_updates_timestamp_and_forwards
    [where data = "media_msg (JNum 100) (JStr ''AAAA'')" and readyState = CLOSED and s = init_session]
  by (simp add: media_msg_def)

section \<open>Acknowledgements and stream start\<close>

text \<open>
  C7. A Twilio \<^verbatim>\<open>mark\<close> message removes the oldest entry of \<open>markQueue\<close> when there is one (the
  length goes down by exactly one) and does nothing when the queue is empty; nothing is
  sent and no other field changes.
\<close>

theorem mark_pops_oldest:
  assumes "read_prop data ''event'' = JStr ''mark''"
  shows "on_twilio_message readyState s (Inr data) = (s\<lparr>markQueue := drop 1 (markQueue s)\<rparr>, [])
         \<and> length (markQueue (fst (on_twilio_message readyState s (Inr data)))) =
             (if markQueue s = [] then 0 else length (markQueue s) - 1)
         \<and> (case markQueue s of
              [] \<Rightarrow> markQueue (fst (on_twilio_message readyState s (Inr data))) = []
            | oldest # rest \<Rightarrow> markQueue (fst (on_twilio_message readyState s (Inr data))) = rest)"
proof -
  from assms have nn: "\<not> nullish data"
    by (rule message_with_member_not_nullish)
  have r: "on_twilio_message readyState s (Inr data) = (s\<lparr>markQueue := drop 1 (markQueue s)\<rparr>, [])"
    using nn assms by (cases "markQueue s") (simp_all add: on_twilio_message_def twilio_try_def)
  show ?thesis
    unfolding r by (cases "markQueue s") simp_all
qed

theorem mark_pops_oldest_witness:
  "read_prop mark_msg ''event'' = JStr ''mark''
   \<and> on_twilio_message OPEN (init_session\<lparr>markQueue := [''a'', ''b'', ''c'']\<rparr>) (Inr mark_msg) =
       (init_session\<lparr>markQueue := [''b'', ''c'']\<rparr>, [])
   \<and> on_twilio_message OPEN init_session (Inr mark_msg) = (init_session, [])"
  using mark_pops_oldest [where data = mark_msg and readyState = OPEN
      and s = "init_session\<lparr>markQueue := [''a'', ''b'', ''c'']\<rparr>"]
    mark_pops_oldest [where data = mark_msg and readyState = OPEN and s = init_session]
  by (simp add: mark_msg_def init_session_def)

text \<open>
  C8. A Twilio \<^verbatim>\<open>start\<close> message (one that carries its \<^verbatim>\<open>start\<close> member) stores the stream
  identifier of the message, \<^verbatim>\<open>start.streamSid\<close>, in \<open>streamSid\<close>, sets \<open>latestMediaTimestamp\<close>
  to 0 whatever it was, and sets \<open>responseStartTimestampTwilio\<close> to \<^verbatim>\<open>null\<close>.
\<close>

theorem start_stores_stream_and_resets_timing:
  assumes "read_prop data ''event'' = JStr ''start''"
    and "\<not> nullish (read_prop data ''start'')"
  shows "on_twilio_message readyState s (Inr data) =
           (s\<lparr>streamSid := read_prop (read_prop data ''start'') ''streamSid'',
              responseStartTimestampTwilio := JNull,
              latestMediaTimestamp := JNum 0\<rparr>, [])"
proof -
  from assms(1) have nn: "\<not> nullish data"
    by (rule message_with_member_not_nullish)
  with assms show ?thesis
    by (simp add: on_twilio_message_def twilio_try_def)
qed

theorem start_stores_stream_and_resets_timing_witness:
  "read_prop (start_msg (JStr ''S1'')) ''event'' = JStr ''start''
   \<and> \<not> nullish (read_prop (start_msg (JStr ''S1'')) ''start'')
   \<and> on_twilio_message OPEN
        \<lparr>streamSid = JStr ''S0'', latestMediaTimestamp = JNum 5000, lastAssistantItem = JStr ''X'',
         markQueue = [''responsePart''], responseStartTimestampTwilio = JNum 3000\<rparr>
        (Inr (start_msg (JStr ''S1''))) =
       (\<lparr>streamSid = JStr ''S1'', latestMediaTimestamp = JNum 0, lastAssistantItem = JStr ''X'',
         markQueue = [''responsePart''], responseStartTimestampTwilio = JNull\<rparr>, [])"
  using start_stores_stream_and_resets_timing
    [where data = "start_msg (JStr ''S1'')" and readyState = OPEN
       and s = "\<lparr>streamSid = JStr ''S0'', latestMediaTimestamp = JNum 5000,
                 lastAssistantItem = JStr ''X'', markQueue = [''responsePart''],
                 responseStartTimestampTwilio = JNum 3000\<rparr>"]
  by (simp add: start_msg_def)

text \<open>
  C10. A Twilio \<^verbatim>\<open>start\<close> message leaves \<open>markQueue\<close> and \<open>lastAssistantItem\<close> as they were: the
  marks and the item identifier of the stream before survive the restart.
\<close>

theorem start_keeps_queue_and_item:
  assumes "read_prop data ''event'' = JStr ''start''"
  shows "markQueue (fst (on_twilio_message readyState s (Inr data))) = markQueue s
         \<and> lastAssistantItem (fst (on_twilio_message readyState s (Inr data))) = lastAssistantItem s"
proof -
  from assms have nn: "\<not> nullish data"
    by (rule message_with_member_not_nullish)
  with assms show ?thesis
    by (simp add: on_twilio_message_def twilio_try_def)
qed

theorem start_keeps_queue_and_item_witness:
  "read_prop (start_msg (JStr ''S1'')) ''event'' = JStr ''start''
   \<and> markQueue (fst (on_twilio_message OPEN
        \<lparr>streamSid = JStr ''S0'', latestMediaTimestamp = JNum 5000, lastAssistantItem = JStr ''X'',
         markQueue = [''responsePart'', ''responsePart''], responseStartTimestampTwilio = JNum 3000\<rparr>
        (Inr (start_msg (JStr ''S1''))))) = [''responsePart'', ''responsePart'']
   \<and> lastAssistantItem (fst (on_twilio_message OPEN
        \<lparr>streamSid = JStr ''S0'', latestMediaTimestamp = JNum 5000, lastAssistantItem = JStr ''X'',
         markQueue = [''responsePart'', ''responsePart''], responseStartTimestampTwilio = JNum 3000\<rparr>
        (Inr (start_msg (JStr ''S1''))))) = JStr ''X''"
  using start_keeps_queue_and_item
    [where data = "start_msg (JStr ''S1'')" and readyState = OPEN
       and s = "\<lparr>streamSid = JStr ''S0'', latestMediaTimestamp = JNum 5000,
                 lastAssistantItem = JStr ''X'', markQueue = [''responsePart'', ''responsePart''],
                 responseStartTimestampTwilio = JNum 3000\<rparr>"]
  by (simp add: start_msg_def)

section \<open>One media and one mark for each delta\<close>

text \<open>
  C2, as the code has it. A \<^verbatim>\<open>response.audio.delta\<close> message whose \<^verbatim>\<open>delta\<close> is truthy (not
  empty) and is accepted by \<^verbatim>\<open>Buffer.from\<close>, handled while \<open>streamSid\<close> is truthy (the test
  \<^verbatim>\<open>if (streamSid)\<close> of \<^verbatim>\<open>sendMark\<close>: not \<^verbatim>\<open>null\<close>, \<^verbatim>\<open>undefined\<close>, the empty string, 0 or \<^verbatim>\<open>false\<close>),
  sends exactly one \<^verbatim>\<open>media\<close> and then exactly one \<^verbatim>\<open>mark\<close> to Twilio, and \<open>markQueue\<close> grows by
  exactly one. A message whose \<^verbatim>\<open>delta\<close> is absent or the empty string sends nothing and
  changes nothing.
\<close>

theorem audio_delta_sends_media_and_mark:
  assumes "read_prop response ''type'' = JStr ''response.audio.delta''"
  shows "(truthy (read_prop response ''delta'')
          \<and> base64_roundtrip rt (read_prop response ''delta'') = Inr payload
          \<and> truthy (streamSid s) \<longrightarrow>
            snd (on_openai_message rt s (Inr response)) =
              [ToTwilio (JObj [(''event'', JStr ''media''), (''streamSid'', streamSid s),
                               (''media'', JObj [(''payload'', JStr payload)])]),
               ToTwilio (JObj [(''event'', JStr ''mark''), (''streamSid'', streamSid s),
                               (''mark'', JObj [(''name'', JStr ''responsePart'')])])]
            \<and> length (twilio_events ''media'' (snd (on_openai_message rt s (Inr response)))) = 1
            \<and> length (twilio_events ''mark'' (snd (on_openai_message rt s (Inr response)))) = 1
            \<and> length (markQueue (fst (on_openai_message rt s (Inr response)))) =
                length (markQueue s) + 1)
         \<and> (read_prop response ''delta'' = JUndefined \<or> read_prop response ''delta'' = JStr [] \<longrightarrow>
              on_openai_message rt s (Inr response) = (s, []))"
proof (intro conjI impI)
  from assms have nn: "\<not> nullish response"
    by (rule message_with_member_not_nullish)
  {
    assume sent: "truthy (read_prop response ''delta'')
                  \<and> base64_roundtrip rt (read_prop response ''delta'') = Inr payload
                  \<and> truthy (streamSid s)"
    with nn assms have eq: "on_openai_message rt s (Inr response) =
        (case audio_delta_branch rt s response of Inl e \<Rightarrow> (s, []) | Inr r \<Rightarrow> r)"
      by (simp add: on_openai_message_def openai_try_cases)
    from sent show "snd (on_openai_message rt s (Inr response)) =
              [ToTwilio (JObj [(''event'', JStr ''media''), (''streamSid'', streamSid s),
                               (''media'', JObj [(''payload'', JStr payload)])]),
               ToTwilio (JObj [(''event'', JStr ''mark''), (''streamSid'', streamSid s),
                               (''mark'', JObj [(''name'', JStr ''responsePart'')])])]"
      unfolding eq by (simp add: audio_delta_branch_def sendMark_def Let_def)
    from sent show "length (twilio_events ''media'' (snd (on_openai_message rt s (Inr response)))) = 1"
      unfolding eq by (simp add: audio_delta_branch_def sendMark_def twilio_events_def Let_def)
    from sent show "length (twilio_events ''mark'' (snd (on_openai_message rt s (Inr response)))) = 1"
      unfolding eq by (simp add: audio_delta_branch_def sendMark_def twilio_events_def Let_def)
    from sent show "length (markQueue (fst (on_openai_message rt s (Inr response)))) =
                length (markQueue s) + 1"
      unfolding eq by (simp add: audio_delta_branch_def sendMark_def Let_def)
  }
  assume "read_prop response ''delta'' = JUndefined \<or> read_prop response ''delta'' = JStr []"
  then have "\<not> truthy (read_prop response ''delta'')"
    by auto
  with nn assms show "on_openai_message rt s (Inr response) = (s, [])"
    by (simp add: on_openai_message_def openai_try_cases)
qed

theorem audio_delta_sends_media_and_mark_witness:
  "read_prop (audio_delta_msg (JStr ''AAAA'')) ''type'' = JStr ''response.audio.delta''
   \<and> truthy (read_prop (audio_delta_msg (JStr ''AAAA'')) ''delta'')
   \<and> base64_roundtrip example_runtime (read_prop (audio_delta_msg (JStr ''AAAA'')) ''delta'') = Inr ''AAAA''
   \<and> truthy (streamSid (init_session\<lparr>streamSid := JStr ''S1''\<rparr>))
   \<and> snd (on_openai_message example_runtime (init_session\<lparr>streamSid := JStr ''S1''\<rparr>)
            (Inr (audio_delta_msg (JStr ''AAAA'')))) =
           [ToTwilio (JObj [(''event'', JStr ''media''), (''streamSid'', JStr ''S1''),
                            (''media'', JObj [(''payload'', JStr ''AAAA'')])]),
            ToTwilio (JObj [(''event'', JStr ''mark''), (''streamSid'', JStr ''S1''),
                            (''mark'', JObj [(''name'', JStr ''responsePart'')])])]
   \<and> length (markQueue (fst (on_openai_message example_runtime (init_session\<lparr>streamSid := JStr ''S1''\<rparr>)
            (Inr (audio_delta_msg (JStr ''AAAA'')))))) = 1
   \<and> read_prop (audio_delta_msg (JStr [])) ''type'' = JStr ''response.audio.delta''
   \<and> read_prop (audio_delta_msg (JStr [])) ''delta'' = JStr []
   \<and> on_openai_message example_runtime (init_session\<lparr>streamSid := JStr ''S1''\<rparr>)
        (Inr (audio_delta_msg (JStr []))) = (init_session\<lparr>streamSid := JStr ''S1''\<rparr>, [])"
  using audio_delta_sends_media_and_mark
    [where response = "audio_delta_msg (JStr ''AAAA'')" and rt = example_runtime
       and payload = "''AAAA''" and s = "init_session\<lparr>streamSid := JStr ''S1''\<rparr>"]
    audio_delta_sends_media_and_mark
    [where response = "audio_delta_msg (JStr [])" and rt = example_runtime
       and payload = "''AAAA''" and s = "init_session\<lparr>streamSid := JStr ''S1''\<rparr>"]
  by (simp add: audio_delta_msg_def example_runtime_def init_session_def)

text \<open>
  C2, as stated for every \<^verbatim>\<open>response.audio.delta\<close> message, fails. With an empty \<^verbatim>\<open>delta\<close>
  (here in a started session) no \<^verbatim>\<open>media\<close> and no \<^verbatim>\<open>mark\<close> is sent and \<open>markQueue\<close> keeps its
  length. With \<open>streamSid\<close> still \<^verbatim>\<open>null\<close> (the initial session) and the delta \<^verbatim>\<open>"AAAA"\<close>, no
  \<^verbatim>\<open>mark\<close> is sent and \<open>markQueue\<close> keeps its length; the same with \<open>streamSid\<close> the empty
  string, which the test \<^verbatim>\<open>if (streamSid)\<close> rejects as well.
\<close>

theorem audio_delta_counterexample:
  "length (twilio_events ''media''
       (snd (on_openai_message example_runtime (init_session\<lparr>streamSid := JStr ''S1''\<rparr>)
               (Inr (audio_delta_msg (JStr [])))))) = 0
   \<and> length (twilio_events ''mark''
       (snd (on_openai_message example_runtime (init_session\<lparr>streamSid := JStr ''S1''\<rparr>)
               (Inr (audio_delta_msg (JStr [])))))) = 0
   \<and> length (markQueue (fst (on_openai_message example_runtime (init_session\<lparr>streamSid := JStr ''S1''\<rparr>)
               (Inr (audio_delta_msg (JStr [])))))) =
       length (markQueue (init_session\<lparr>streamSid := JStr ''S1''\<rparr>))
   \<and> length (twilio_events ''mark''
       (snd (on_openai_message example_runtime init_session (Inr (audio_delta_msg (JStr ''AAAA'')))))) = 0
   \<and> length (markQueue (fst (on_openai_message example_runtime init_session
               (Inr (audio_delta_msg (JStr ''AAAA'')))))) = length (markQueue init_session)
   \<and> length (twilio_events ''mark''
       (snd (on_openai_message example_runtime (init_session\<lparr>streamSid := JStr []\<rparr>)
               (Inr (audio_delta_msg (JStr ''AAAA'')))))) = 0
   \<and> length (markQueue (fst (on_openai_message example_runtime (init_session\<lparr>streamSid := JStr []\<rparr>)
               (Inr (audio_delta_msg (JStr ''AAAA'')))))) =
       length (markQueue (init_session\<lparr>streamSid := JStr []\<rparr>))"
  by (simp add: on_openai_message_def openai_try_def audio_delta_branch_def sendMark_def
      twilio_events_def Let_def audio_delta_msg_def example_runtime_def init_session_def)

section \<open>Outputs while no stream identifier is known\<close>

text \<open>
  What does hold: \<^verbatim>\<open>sendMark\<close> tests \<open>streamSid\<close>, so no \<^verbatim>\<open>mark\<close> leaves while it is unset; and
  until the first \<^verbatim>\<open>start\<close> message the queue stays empty, so no \<^verbatim>\<open>clear\<close> leaves either.
\<close>

lemma twilio_events_append:
  "twilio_events name (xs @ ys) = twilio_events name xs @ twilio_events name ys"
  by (simp add: twilio_events_def)

lemma twilio_handler_sends_nothing_to_twilio:
  "twilio_events name (snd (on_twilio_message readyState s parsed)) = []"
  by (cases parsed)
    (simp_all add: on_twilio_message_def twilio_try_def twilio_events_def Let_def)

lemma handleSpeechStartedEvent_no_mark:
  "twilio_events ''mark'' (snd (handleSpeechStartedEvent rt s)) = []"
  by (simp add: handleSpeechStartedEvent_def twilio_events_def Let_def)

lemma handleSpeechStartedEvent_empty_queue:
  "markQueue s = [] \<Longrightarrow> handleSpeechStartedEvent rt s = (s, [])"
  by (simp add: handleSpeechStartedEvent_def)

lemma audio_delta_branch_unset_streamSid:
  assumes "\<not> truthy (streamSid s)"
    and "audio_delta_branch rt s response = Inr r"
  shows "twilio_events ''mark'' (snd r) = [] \<and> twilio_events ''clear'' (snd r) = []
         \<and> markQueue (fst r) = markQueue s \<and> streamSid (fst r) = streamSid s"
  using assms
  by (auto simp add: audio_delta_branch_def sendMark_def twilio_events_def Let_def
      split: sum.splits)

lemma on_openai_message_unset_streamSid:
  assumes "\<not> truthy (streamSid s)"
  shows "twilio_events ''mark'' (snd (on_openai_message rt s parsed)) = []
         \<and> (markQueue s = [] \<longrightarrow>
              twilio_events ''clear'' (snd (on_openai_message rt s parsed)) = []
              \<and> before_start (fst (on_openai_message rt s parsed)))"
proof (cases parsed)
  case (Inl e)
  with assms show ?thesis
    by (simp add: on_openai_message_def twilio_events_def before_start_def)
next
  case (Inr response)
  show ?thesis
  proof (cases rule: openai_try_outcomes [of rt s response])
    case throws
    with Inr assms show ?thesis
      by (simp add: on_openai_message_def twilio_events_def before_start_def)
  next
    case delta
    with Inr assms audio_delta_branch_unset_streamSid [OF assms delta(2)] show ?thesis
      by (simp add: on_openai_message_def before_start_def)
  next
    case speech
    with Inr assms handleSpeechStartedEvent_no_mark [of rt s]
      handleSpeechStartedEvent_empty_queue [of s rt]
    show ?thesis
      by (auto simp add: on_openai_message_def before_start_def twilio_events_def)
  next
    case other
    with Inr assms show ?thesis
      by (simp add: on_openai_message_def twilio_events_def before_start_def)
  qed
qed

lemma step_before_start:
  assumes "before_start s" and "\<not> is_start_message i"
  shows "before_start (fst (step rt s i))
         \<and> twilio_events ''mark'' (snd (step rt s i)) = []
         \<and> twilio_events ''clear'' (snd (step rt s i)) = []"
proof (cases i)
  case (TwilioMessage readyState parsed)
  have out: "twilio_events name (snd (step rt s i)) = []" for name
    using TwilioMessage by (simp add: twilio_handler_sends_nothing_to_twilio)
  have "before_start (fst (on_twilio_message readyState s parsed))"
    using assms TwilioMessage
    by (cases parsed)
      (auto simp add: on_twilio_message_def twilio_try_def before_start_def Let_def)
  with out TwilioMessage show ?thesis by simp
next
  case (OpenAiMessage parsed)
  from assms(1) have "\<not> truthy (streamSid s)" and "markQueue s = []"
    by (simp_all add: before_start_def)
  with OpenAiMessage on_openai_message_unset_streamSid [of s rt parsed] show ?thesis
    by simp
qed

lemma init_session_before_start: "before_start init_session"
  by (simp add: before_start_def init_session_def)

lemma no_mark_or_clear_before_start:
  assumes "before_start s" and "\<forall>i \<in> set inputs. \<not> is_start_message i"
  shows "twilio_events ''mark'' (snd (run rt s inputs)) = []
         \<and> twilio_events ''clear'' (snd (run rt s inputs)) = []"
  using assms
proof (induction inputs arbitrary: s)
  case Nil
  then show ?case by (simp add: twilio_events_def)
next
  case (Cons i inputs)
  from Cons.prems have "before_start (fst (step rt s i))"
    and "twilio_events ''mark'' (snd (step rt s i)) = []"
    and "twilio_events ''clear'' (snd (step rt s i)) = []"
    using step_before_start [of s i rt] by simp_all
  moreover from Cons.prems have "\<forall>j \<in> set inputs. \<not> is_start_message j" by simp
  ultimately show ?case
    using Cons.IH [of "fst (step rt s i)"] by (simp add: Let_def twilio_events_append)
qed

text \<open>
  C3. No \<^verbatim>\<open>media\<close>, \<^verbatim>\<open>clear\<close> or \<^verbatim>\<open>mark\<close> is to reach Twilio while \<open>streamSid\<close> is unset. The
  \<^verbatim>\<open>media\<close> of a delta is sent without the test that \<^verbatim>\<open>sendMark\<close> makes: in the initial
  session, where \<open>streamSid\<close> is \<^verbatim>\<open>null\<close>, the delta \<^verbatim>\<open>"AAAA"\<close> sends one \<^verbatim>\<open>media\<close> whose
  \<^verbatim>\<open>streamSid\<close> is \<^verbatim>\<open>null\<close>.
\<close>

theorem media_sent_before_start:
  "streamSid init_session = JNull
   \<and> on_openai_message example_runtime init_session (Inr (audio_delta_msg (JStr ''AAAA''))) =
       (init_session\<lparr>responseStartTimestampTwilio := JNum 0\<rparr>,
        [ToTwilio (JObj [(''event'', JStr ''media''), (''streamSid'', JNull),
                         (''media'', JObj [(''payload'', JStr ''AAAA'')])])])
   \<and> length (twilio_events ''media''
        (snd (on_openai_message example_runtime init_session
                (Inr (audio_delta_msg (JStr ''AAAA'')))))) = 1"
  by (simp add: on_openai_message_def openai_try_def audio_delta_branch_def sendMark_def
      twilio_events_def Let_def audio_delta_msg_def example_runtime_def init_session_def)

section \<open>The start of a response\<close>

text \<open>
  What does hold: a delta records \<open>latestMediaTimestamp\<close> when \<open>responseStartTimestampTwilio\<close>
  is unset, and keeps a recorded value that is truthy.
\<close>

lemma delta_records_start_when_unset:
  assumes "read_prop response ''type'' = JStr ''response.audio.delta''"
    and "truthy (read_prop response ''delta'')"
    and "base64_roundtrip rt (read_prop response ''delta'') = Inr payload"
    and "nullish (responseStartTimestampTwilio s)"
  shows "responseStartTimestampTwilio (fst (on_openai_message rt s (Inr response))) =
           latestMediaTimestamp s"
proof -
  from assms(1) have nn: "\<not> nullish response"
    by (rule message_with_member_not_nullish)
  from assms(4) have "\<not> truthy (responseStartTimestampTwilio s)"
    by (cases "responseStartTimestampTwilio s") simp_all
  with nn assms(1-3) show ?thesis
    by (simp add: on_openai_message_def openai_try_cases audio_delta_branch_def sendMark_def Let_def)
qed

lemma delta_keeps_truthy_start:
  assumes "read_prop response ''type'' = JStr ''response.audio.delta''"
    and "truthy (responseStartTimestampTwilio s)"
  shows "responseStartTimestampTwilio (fst (on_openai_message rt s (Inr response))) =
           responseStartTimestampTwilio s"
proof -
  from assms(1) have nn: "\<not> nullish response"
    by (rule message_with_member_not_nullish)
  with assms show ?thesis
    by (simp add: on_openai_message_def openai_try_cases audio_delta_branch_def sendMark_def Let_def
        split: sum.splits)
qed

text \<open>
  C4. Within one response \<open>responseStartTimestampTwilio\<close> is to be assigned once, with the
  \<open>latestMediaTimestamp\<close> of the first delta. The test \<^verbatim>\<open>!responseStartTimestampTwilio\<close> takes
  a recorded 0 for unset: after \<^verbatim>\<open>start\<close>, a first delta records 0; a \<^verbatim>\<open>media\<close> with timestamp 20
  follows; the second delta of the same response assigns again, and the recorded start
  becomes 20.
\<close>

theorem response_start_assigned_twice:
  "fst (run example_runtime init_session
          [TwilioMessage OPEN (Inr (start_msg (JStr ''S1''))),
           OpenAiMessage (Inr (audio_delta_msg (JStr ''AAAA'')))]) =
     \<lparr>streamSid = JStr ''S1'', latestMediaTimestamp = JNum 0, lastAssistantItem = JNull,
      markQueue = [''responsePart''], responseStartTimestampTwilio = JNum 0\<rparr>
   \<and> fst (run example_runtime init_session
          [TwilioMessage OPEN (Inr (start_msg (JStr ''S1''))),
           OpenAiMessage (Inr (audio_delta_msg (JStr ''AAAA''))),
           TwilioMessage OPEN (Inr (media_msg (JNum 20) (JStr ''CCCC''))),
           OpenAiMessage (Inr (audio_delta_msg (JStr ''BBBB'')))]) =
     \<lparr>streamSid = JStr ''S1'', latestMediaTimestamp = JNum 20, lastAssistantItem = JNull,
      markQueue = [''responsePart'', ''responsePart''], responseStartTimestampTwilio = JNum 20\<rparr>"
  by (simp add: on_openai_message_def openai_try_def audio_delta_branch_def sendMark_def
      on_twilio_message_def twilio_try_def
      Let_def audio_delta_msg_def start_msg_def media_msg_def example_runtime_def init_session_def)

end
